theory Spec2Isabelle
  imports Complex_Main "HOL-Library.Word"
begin

section \<open>Data model (models.py, schemas.py)\<close>

text \<open>
  Identifiers (UUIDs) are natural numbers, timestamps are integers counting microseconds,
  Python's unbounded \<open>int\<close> is \<open>int\<close>, \<open>bytes\<close> is a list of 8-bit words and the
  status columns are the strings the code stores. Record fields carry a prefix because
  several tables share column names. The columns of a video that the metadata extraction
  fills (duration, width, height, fps, codec, bitrate) are gathered in \<open>v_metadata\<close>.
  The store accepts every record handed to it: the width limits that the database engine
  puts on columns are outside this model.
\<close>

type_synonym uuid = nat
type_synonym datetime = int
type_synonym bytes = "8 word list"

record upload_session =
  us_id :: uuid
  us_user_id :: uuid
  us_filename :: string
  us_file_size :: int
  us_chunk_size :: int
  us_total_chunks :: int
  us_uploaded_chunks :: int
  us_status :: string
  us_session_token :: string
  us_expires_at :: datetime

record video =
  v_id :: uuid
  v_user_id :: uuid
  v_filename :: string
  v_original_filename :: string
  v_file_path :: string
  v_file_size :: int
  v_mime_type :: string
  v_upload_status :: string
  v_metadata :: "(string \<times> string) list"

record video_analysis =
  va_id :: uuid
  va_video_id :: uuid
  va_analysis_type :: string
  va_status :: string
  va_result :: "(string \<times> string) list option"
  va_error_message :: "string option"
  va_worker_id :: "string option"

record upload_session_create =
  sc_filename :: string
  sc_file_size :: int
  sc_chunk_size :: int

text \<open>
  The Redis channels the code publishes on (the queue of analyses to run, and one channel
  of notifications per user) and the messages it publishes.
\<close>

datatype channel = VideoAnalysisQueue | UserNotifications uuid

datatype event =
    AnalysisRequested uuid string
  | AnalysisStarted uuid uuid string
  | AnalysisCompleted uuid uuid string
  | AnalysisFailed uuid uuid string string

text \<open>
  The durable state and the effects the handlers have on the outside: the three tables,
  the files written under the storage path, the messages published, the background
  tasks queued and the calls made to the analyzer (file path and analysis type).
\<close>

record store =
  sessions :: "upload_session list"
  videos :: "video list"
  analyses :: "video_analysis list"
  files :: "string \<rightharpoonup> bytes"
  published :: "(channel \<times> event) list"
  tasks :: "uuid list"
  analyzer_calls :: "(string \<times> string) list"

datatype error = HTTPException nat string | ZeroDivisionError

text \<open>
  \<open>update_first P f xs\<close> changes the row that \<open>List.find P xs\<close> returns: the object
  that \<open>result.scalars().first()\<close> yields is the one a later commit writes back.
\<close>

fun update_first :: "('a \<Rightarrow> bool) \<Rightarrow> ('a \<Rightarrow> 'a) \<Rightarrow> 'a list \<Rightarrow> 'a list" where
  "update_first P f [] = []"
| "update_first P f (x # xs) = (if P x then f x # xs else x # update_first P f xs)"

section \<open>Upload sessions over HTTP (routers/upload.py)\<close>

definition timedelta_hours :: "int \<Rightarrow> int" where
  "timedelta_hours h = h * 3600 * 1000000"

text \<open>
  \<open>create_upload_session\<close>: the token, the primary key and the current time come from
  \<open>secrets\<close>, \<open>uuid4\<close> and \<open>utcnow\<close>, so they are parameters. Python's \<open>//\<close> raises
  on a zero divisor and otherwise floors, as \<open>div\<close> on \<open>int\<close> does. The columns
  \<open>uploaded_chunks\<close> and \<open>status\<close> take their defaults \<open>0\<close> and \<open>active\<close>.
\<close>

definition create_upload_session ::
  "upload_session_create \<Rightarrow> uuid \<Rightarrow> string \<Rightarrow> uuid \<Rightarrow> datetime \<Rightarrow> store
    \<Rightarrow> (error + upload_session) \<times> store" where
  "create_upload_session session_data current_user_id session_token new_id utcnow db =
     (if sc_chunk_size session_data = 0 then (Inl ZeroDivisionError, db)
      else
        let total_chunks =
              (sc_file_size session_data + sc_chunk_size session_data - 1)
                div sc_chunk_size session_data;
            upload_session = \<lparr>
              us_id = new_id,
              us_user_id = current_user_id,
              us_filename = sc_filename session_data,
              us_file_size = sc_file_size session_data,
              us_chunk_size = sc_chunk_size session_data,
              us_total_chunks = total_chunks,
              us_uploaded_chunks = 0,
              us_status = ''active'',
              us_session_token = session_token,
              us_expires_at = utcnow + timedelta_hours 24 \<rparr>
        in (Inr upload_session, db\<lparr>sessions := sessions db @ [upload_session]\<rparr>))"

definition owned_by :: "string \<Rightarrow> uuid \<Rightarrow> upload_session \<Rightarrow> bool" where
  "owned_by session_token current_user_id s \<longleftrightarrow>
     us_session_token s = session_token \<and> us_user_id s = current_user_id"

definition get_upload_session ::
  "string \<Rightarrow> uuid \<Rightarrow> datetime \<Rightarrow> store \<Rightarrow> (error + upload_session) \<times> store" where
  "get_upload_session session_token current_user_id utcnow db =
     (case List.find (owned_by session_token current_user_id) (sessions db) of
        None \<Rightarrow> (Inl (HTTPException 404 ''Upload session not found''), db)
      | Some session \<Rightarrow>
          if us_expires_at session < utcnow
          then (Inl (HTTPException 400 ''Upload session expired''), db)
          else (Inr session, db))"

definition cancel_upload_session ::
  "string \<Rightarrow> uuid \<Rightarrow> store \<Rightarrow> (error + string) \<times> store" where
  "cancel_upload_session session_token current_user_id db =
     (case List.find (owned_by session_token current_user_id) (sessions db) of
        None \<Rightarrow> (Inl (HTTPException 404 ''Upload session not found''), db)
      | Some session \<Rightarrow>
          (Inr ''Upload session cancelled'',
           db\<lparr>sessions := update_first (owned_by session_token current_user_id)
                  (\<lambda>s. s\<lparr>us_status := ''cancelled''\<rparr>) (sessions db)\<rparr>))"

section \<open>The chunk protocol (websocket.py)\<close>

text \<open>
  What the client sends, after \<open>receive_text\<close> and \<open>json.loads\<close>: a chunk with its
  index and its decoded bytes, a cancel, a message of any other type (no branch of the
  handler takes it), a frame on which receiving, parsing, a field access or the base64
  decoding raises (with the text of the exception; all of this happens before the handler
  changes anything), or the disconnection of the client.
\<close>

datatype frame =
    ChunkFrame int bytes
  | CancelFrame
  | OtherFrame
  | BadFrame string
  | Disconnect

text \<open>
  What the server sends. The progress reply carries the index, the number of chunks
  received and the total; its percentage is a floating-point number and is not part of
  the model, only the division that computes it is, since it raises when the total is 0.
\<close>

datatype reply =
    ErrorReply string
  | SessionInfo uuid string int int int int
  | Progress int int int
  | UploadComplete uuid string
  | UploadCancelled

text \<open>
  Per connection: the name and path of the file to write and the key of the video row,
  which come from \<open>secrets\<close>, \<open>os.path\<close> and \<open>uuid4\<close>.
\<close>

record conn_env =
  env_unique_filename :: string
  env_file_path :: string
  env_video_id :: uuid

text \<open>
  The state of one connection: the two local variables of the handler (the set of indices
  received and the buffer, both created empty when the connection is opened), the session
  object it loaded, and the store. \<open>db_commit\<close> writes the session object back to the row it
  was loaded from, the first one with its token (the handler never changes the token).
\<close>

record upload_conn =
  received_chunks :: "int set"
  chunk_data :: "int \<rightharpoonup> bytes"
  upload_session :: upload_session
  db :: store

datatype 'a outcome = Continue 'a | Break 'a

fun the_conn :: "'a outcome \<Rightarrow> 'a" where
  "the_conn (Continue c) = c"
| "the_conn (Break c) = c"

definition db_commit :: "upload_conn \<Rightarrow> upload_conn" where
  "db_commit c =
     c\<lparr>db := (db c)\<lparr>sessions :=
         update_first (\<lambda>r. us_session_token r = us_session_token (upload_session c))
           (\<lambda>_. upload_session c) (sessions (db c))\<rparr>\<rparr>"

definition range_py :: "int \<Rightarrow> int list" where
  "range_py n = map int [0..<nat n]"

text \<open>The bytes written at completion: the loop over \<open>range(total_chunks)\<close>.\<close>

definition assemble :: "(int \<rightharpoonup> bytes) \<Rightarrow> int \<Rightarrow> bytes" where
  "assemble cd total_chunks =
     concat (map (\<lambda>i. case cd i of Some b \<Rightarrow> b | None \<Rightarrow> []) (range_py total_chunks))"

definition complete_upload :: "conn_env \<Rightarrow> upload_conn \<Rightarrow> upload_conn" where
  "complete_upload env c =
     (let sess = upload_session c;
          vid = \<lparr>
            v_id = env_video_id env,
            v_user_id = us_user_id sess,
            v_filename = env_unique_filename env,
            v_original_filename = us_filename sess,
            v_file_path = env_file_path env,
            v_file_size = us_file_size sess,
            v_mime_type = ''video/mp4'',
            v_upload_status = ''completed'',
            v_metadata = [] \<rparr>;
          c1 = c\<lparr>db := (db c)\<lparr>
                 files := (files (db c))(env_file_path env \<mapsto>
                            assemble (chunk_data c) (us_total_chunks sess)),
                 videos := videos (db c) @ [vid]\<rparr>\<rparr>;
          c2 = db_commit (c1\<lparr>upload_session := sess\<lparr>us_status := ''completed''\<rparr>\<rparr>)
      in c2\<lparr>db := (db c2)\<lparr>published := published (db c2) @
              [(VideoAnalysisQueue,
                AnalysisRequested (env_video_id env) ''metadata_extraction'')]\<rparr>\<rparr>)"

text \<open>
  A chunk message, first half: the bytes are stored under the index, the index joins the
  set, and the number of indices received is written to the session and committed.
\<close>

definition store_chunk :: "int \<Rightarrow> bytes \<Rightarrow> upload_conn \<Rightarrow> upload_conn" where
  "store_chunk chunk_index chunk_content c =
     (let c1 = c\<lparr>chunk_data := (chunk_data c)(chunk_index \<mapsto> chunk_content),
                 received_chunks := insert chunk_index (received_chunks c)\<rparr>
      in db_commit (c1\<lparr>upload_session :=
           (upload_session c1)\<lparr>us_uploaded_chunks := int (card (received_chunks c1))\<rparr>\<rparr>))"

text \<open>
  Second half: the progress reply (computing the percentage divides by the total, which
  raises when the total is 0; the handler then reports the exception and leaves the
  loop), and the completion when the number of indices received equals the total.
\<close>

definition handle_chunk ::
  "conn_env \<Rightarrow> int \<Rightarrow> bytes \<Rightarrow> upload_conn \<Rightarrow> reply list \<times> upload_conn outcome" where
  "handle_chunk env chunk_index chunk_content c =
     (let c2 = store_chunk chunk_index chunk_content c;
          n = int (card (received_chunks c2));
          total_chunks = us_total_chunks (upload_session c2)
      in if total_chunks = 0 then ([ErrorReply ''division by zero''], Break c2)
         else if n = total_chunks
         then ([Progress chunk_index n total_chunks,
                UploadComplete (env_video_id env) (env_unique_filename env)],
               Break (complete_upload env c2))
         else ([Progress chunk_index n total_chunks], Continue c2))"

definition handle_cancel :: "upload_conn \<Rightarrow> reply list \<times> upload_conn outcome" where
  "handle_cancel c =
     ([UploadCancelled],
      Break (db_commit (c\<lparr>upload_session := (upload_session c)\<lparr>us_status := ''cancelled''\<rparr>\<rparr>)))"

fun handle_frame ::
  "conn_env \<Rightarrow> frame \<Rightarrow> upload_conn \<Rightarrow> reply list \<times> upload_conn outcome" where
  "handle_frame env (ChunkFrame chunk_index chunk_content) c =
     handle_chunk env chunk_index chunk_content c"
| "handle_frame env CancelFrame c = handle_cancel c"
| "handle_frame env OtherFrame c = ([], Continue c)"
| "handle_frame env (BadFrame e) c = ([ErrorReply e], Break c)"
| "handle_frame env Disconnect c = ([], Break c)"

text \<open>
  The \<open>while True\<close> loop over the frames the client sends. When the frames are used up
  the handler is still waiting in \<open>receive_text\<close>, which is the outcome \<open>Continue\<close>.
\<close>

fun upload_loop ::
  "conn_env \<Rightarrow> frame list \<Rightarrow> upload_conn \<Rightarrow> reply list \<times> upload_conn outcome" where
  "upload_loop env [] c = ([], Continue c)"
| "upload_loop env (f # fs) c =
     (case handle_frame env f c of
        (rs, Break c') \<Rightarrow> (rs, Break c')
      | (rs, Continue c') \<Rightarrow>
          (case upload_loop env fs c' of (rs', out) \<Rightarrow> (rs @ rs', out)))"

definition open_conn :: "upload_session \<Rightarrow> store \<Rightarrow> upload_conn" where
  "open_conn sess d =
     \<lparr>received_chunks = {}, chunk_data = Map.empty, upload_session = sess, db = d\<rparr>"

definition websocket_upload_endpoint ::
  "conn_env \<Rightarrow> string \<Rightarrow> datetime \<Rightarrow> frame list \<Rightarrow> store \<Rightarrow> reply list \<times> store" where
  "websocket_upload_endpoint env session_token utcnow frames d =
     (case List.find (\<lambda>s. us_session_token s = session_token) (sessions d) of
        None \<Rightarrow> ([ErrorReply ''Invalid session token''], d)
      | Some sess \<Rightarrow>
          if us_expires_at sess < utcnow then ([ErrorReply ''Session expired''], d)
          else if us_status sess \<noteq> ''active'' then ([ErrorReply ''Session is not active''], d)
          else
            (case upload_loop env frames (open_conn sess d) of
               (rs, out) \<Rightarrow>
                 (SessionInfo (us_id sess) (us_filename sess) (us_file_size sess)
                    (us_chunk_size sess) (us_total_chunks sess) (us_uploaded_chunks sess) # rs,
                  db (the_conn out))))"

section \<open>Submitting analysis jobs (routers/analysis.py)\<close>

definition in_flight :: "uuid \<Rightarrow> string \<Rightarrow> video_analysis \<Rightarrow> bool" where
  "in_flight video_id analysis_type a \<longleftrightarrow>
     va_video_id a = video_id \<and> va_analysis_type a = analysis_type
     \<and> va_status a \<in> set [''pending'', ''running'']"

definition already_detail :: "string \<Rightarrow> string" where
  "already_detail analysis_type =
     ''Analysis of type '' @ [CHR 0x27] @ analysis_type @ [CHR 0x27]
       @ '' is already pending or running''"

text \<open>
  \<open>create_analysis\<close>: the key of the new row comes from \<open>uuid4\<close>. The background task
  queued at the end is recorded in \<open>tasks\<close>.
\<close>

definition create_analysis ::
  "uuid \<Rightarrow> string \<Rightarrow> uuid \<Rightarrow> uuid \<Rightarrow> store \<Rightarrow> (error + video_analysis) \<times> store" where
  "create_analysis video_id analysis_type current_user_id new_id d =
     (case List.find (\<lambda>v. v_id v = video_id \<and> v_user_id v = current_user_id) (videos d) of
        None \<Rightarrow> (Inl (HTTPException 404 ''Video not found''), d)
      | Some vid \<Rightarrow>
          if v_upload_status vid \<noteq> ''completed''
          then (Inl (HTTPException 400 ''Video upload is not completed''), d)
          else
            (case List.find (in_flight video_id analysis_type) (analyses d) of
               Some existing_analysis \<Rightarrow>
                 (Inl (HTTPException 400 (already_detail analysis_type)), d)
             | None \<Rightarrow>
                 let analysis = \<lparr>
                       va_id = new_id,
                       va_video_id = video_id,
                       va_analysis_type = analysis_type,
                       va_status = ''pending'',
                       va_result = None,
                       va_error_message = None,
                       va_worker_id = None \<rparr>
                 in (Inr analysis,
                     d\<lparr>analyses := analyses d @ [analysis], tasks := tasks d @ [new_id]\<rparr>)))"

section \<open>Executing analysis jobs (tasks.py)\<close>

text \<open>
  The analyzer is outside the model: it is a function from the file path and the analysis
  type to a result document or to the text of the exception it raises. The timestamps
  and the processing time that the task stores, and the Redis cache of the result, are
  left out.
\<close>

datatype analyzer_outcome = Returns "(string \<times> string) list" | Raises string

type_synonym analyzer = "string \<Rightarrow> string \<Rightarrow> analyzer_outcome"

datatype task_result = AnalysisNotFound | TaskCompleted | Retry int string

text \<open>The rows of \<open>select(VideoAnalysis, Video).join(Video)\<close>.\<close>

definition joined :: "store \<Rightarrow> (video_analysis \<times> video) list" where
  "joined d = [(a, v). a \<leftarrow> analyses d, v \<leftarrow> videos d, v_id v = va_video_id a]"

definition update_analysis :: "uuid \<Rightarrow> (video_analysis \<Rightarrow> video_analysis) \<Rightarrow> store \<Rightarrow> store" where
  "update_analysis analysis_id f d =
     d\<lparr>analyses := update_first (\<lambda>r. va_id r = analysis_id) f (analyses d)\<rparr>"

definition user_channel :: "video \<Rightarrow> channel" where
  "user_channel vid = UserNotifications (v_user_id vid)"

text \<open>
  The first part of \<open>_analyze_video_async\<close>, up to the notification that the analysis has
  started: the job is loaded, and its status and its worker are written and committed.
  No statement of this part reads the status that was loaded.
\<close>

definition begin_analysis ::
  "string \<Rightarrow> uuid \<Rightarrow> store \<Rightarrow> (video_analysis \<times> video \<times> store) option" where
  "begin_analysis task_id analysis_id d =
     (case List.find (\<lambda>(a, v). va_id a = analysis_id) (joined d) of
        None \<Rightarrow> None
      | Some (analysis, vid) \<Rightarrow>
          let set_running = (\<lambda>a. a\<lparr>va_status := ''running'', va_worker_id := Some task_id\<rparr>);
              d1 = update_analysis analysis_id set_running d;
              d2 = d1\<lparr>published := published d1 @
                     [(user_channel vid,
                       AnalysisStarted (v_id vid) analysis_id (va_analysis_type analysis))]\<rparr>
          in Some (set_running analysis, vid, d2))"

text \<open>
  The second part: the analyzer is called, and the job is written as completed with the
  result, or as failed with the reason; a failure is raised again and reaches the outer
  handler, which asks for a retry after 60 seconds.
\<close>

definition finish_analysis ::
  "analyzer \<Rightarrow> video_analysis \<times> video \<times> store \<Rightarrow> task_result \<times> store" where
  "finish_analysis run = (\<lambda>(analysis, vid, d).
     let kind = va_analysis_type analysis;
         d1 = d\<lparr>analyzer_calls := analyzer_calls d @ [(v_file_path vid, kind)]\<rparr>
     in case run (v_file_path vid) kind of
          Returns result_data \<Rightarrow>
            let d2 = (if kind = ''metadata_extraction''
                      then d1\<lparr>videos := update_first (\<lambda>r. v_id r = v_id vid)
                                (\<lambda>r. r\<lparr>v_metadata := result_data\<rparr>) (videos d1)\<rparr>
                      else d1);
                d3 = update_analysis (va_id analysis)
                       (\<lambda>a. a\<lparr>va_result := Some result_data, va_status := ''completed''\<rparr>) d2
            in (TaskCompleted,
                d3\<lparr>published := published d3 @
                  [(user_channel vid, AnalysisCompleted (v_id vid) (va_id analysis) kind)]\<rparr>)
        | Raises e \<Rightarrow>
            let d2 = update_analysis (va_id analysis)
                       (\<lambda>a. a\<lparr>va_status := ''failed'', va_error_message := Some e\<rparr>) d1
            in (Retry 60 e,
                d2\<lparr>published := published d2 @
                  [(user_channel vid, AnalysisFailed (v_id vid) (va_id analysis) kind e)]\<rparr>))"

definition analyze_video_async ::
  "analyzer \<Rightarrow> string \<Rightarrow> uuid \<Rightarrow> store \<Rightarrow> task_result \<times> store" where
  "analyze_video_async run task_id analysis_id d =
     (case begin_analysis task_id analysis_id d of
        None \<Rightarrow> (AnalysisNotFound, d)
      | Some st \<Rightarrow> finish_analysis run st)"

text \<open>
  Several workers on one store. Each worker runs the two parts above; between them it
  waits for the analyzer, and another worker can run. \<open>wp_local\<close> holds, for every
  worker that has made the transition to running and has not finished, the job and the
  video it loaded.
\<close>

datatype worker_step = Begin string uuid | Finish string

record worker_pool =
  wp_db :: store
  wp_local :: "string \<rightharpoonup> video_analysis \<times> video"

fun do_step :: "analyzer \<Rightarrow> worker_step \<Rightarrow> worker_pool \<Rightarrow> worker_pool" where
  "do_step run (Begin task_id analysis_id) p =
     (case begin_analysis task_id analysis_id (wp_db p) of
        None \<Rightarrow> p
      | Some (analysis, vid, d) \<Rightarrow>
          p\<lparr>wp_db := d, wp_local := (wp_local p)(task_id \<mapsto> (analysis, vid))\<rparr>)"
| "do_step run (Finish task_id) p =
     (case wp_local p task_id of
        None \<Rightarrow> p
      | Some (analysis, vid) \<Rightarrow>
          p\<lparr>wp_db := snd (finish_analysis run (analysis, vid, wp_db p)),
            wp_local := (wp_local p)(task_id := None)\<rparr>)"

fun run_workers :: "analyzer \<Rightarrow> worker_step list \<Rightarrow> worker_pool \<Rightarrow> worker_pool" where
  "run_workers run [] p = p"
| "run_workers run (st # sts) p = run_workers run sts (do_step run st p)"

text \<open>The workers that are in the running phase of a job.\<close>

definition owns_running :: "worker_pool \<Rightarrow> string \<Rightarrow> uuid \<Rightarrow> bool" where
  "owns_running p task_id analysis_id \<longleftrightarrow>
     (case wp_local p task_id of None \<Rightarrow> False | Some (a, v) \<Rightarrow> va_id a = analysis_id)"

section \<open>The state of a connection between two frames\<close>

text \<open>
  What holds of a connection whenever the loop waits for the next frame: the set of
  indices is finite, and once a chunk has been stored the session carries the number of
  indices, that number is not the total (the loop would have ended), the total is not 0
  (the loop would have ended too) and the session object is the stored row.
\<close>

definition conn_inv :: "upload_conn \<Rightarrow> bool" where
  "conn_inv c \<longleftrightarrow>
     finite (received_chunks c) \<and>
     (received_chunks c = {} \<or>
        us_uploaded_chunks (upload_session c) = int (card (received_chunks c))
        \<and> int (card (received_chunks c)) \<noteq> us_total_chunks (upload_session c)
        \<and> us_total_chunks (upload_session c) \<noteq> 0
        \<and> db_commit c = c)"

section \<open>Example data\<close>

definition example_session ::
  "string \<Rightarrow> uuid \<Rightarrow> string \<Rightarrow> int \<Rightarrow> datetime \<Rightarrow> upload_session" where
  "example_session tok usr st n expires = \<lparr>
     us_id = 1, us_user_id = usr, us_filename = ''a.mp4'', us_file_size = 3,
     us_chunk_size = 2, us_total_chunks = n, us_uploaded_chunks = 0, us_status = st,
     us_session_token = tok, us_expires_at = expires \<rparr>"

definition example_store :: "upload_session list \<Rightarrow> store" where
  "example_store ss = \<lparr> sessions = ss, videos = [], analyses = [], files = Map.empty,
     published = [], tasks = [], analyzer_calls = [] \<rparr>"

definition example_env :: conn_env where
  "example_env = \<lparr> env_unique_filename = ''x.mp4'',
     env_file_path = ''/app/storage/1/x.mp4'', env_video_id = 7 \<rparr>"

definition example_create :: "int \<Rightarrow> int \<Rightarrow> upload_session_create" where
  "example_create fs cs = \<lparr> sc_filename = ''a.mp4'', sc_file_size = fs, sc_chunk_size = cs \<rparr>"

definition example_video :: video where
  "example_video = \<lparr> v_id = 1, v_user_id = 1, v_filename = ''x.mp4'',
     v_original_filename = ''a.mp4'', v_file_path = ''/app/storage/1/x.mp4'', v_file_size = 3,
     v_mime_type = ''video/mp4'', v_upload_status = ''completed'', v_metadata = [] \<rparr>"

definition example_analysis :: "string \<Rightarrow> video_analysis" where
  "example_analysis st = \<lparr> va_id = 5, va_video_id = 1, va_analysis_type = ''scene_detection'',
     va_status = st, va_result = None, va_error_message = None, va_worker_id = None \<rparr>"

definition example_jobs :: "video_analysis list \<Rightarrow> store" where
  "example_jobs js = \<lparr> sessions = [], videos = [example_video], analyses = js,
     files = Map.empty, published = [], tasks = [], analyzer_calls = [] \<rparr>"

definition example_analyzer :: analyzer where
  "example_analyzer path kind = Returns []"

definition example_pool :: worker_pool where
  "example_pool =
     \<lparr> wp_db = example_jobs [example_analysis ''pending''], wp_local = Map.empty \<rparr>"

lemmas example_defs = example_session_def example_store_def example_env_def
  example_create_def example_video_def example_analysis_def example_jobs_def
  example_analyzer_def example_pool_def

section \<open>Looking sessions up\<close>

lemma find_owned_token:
  "List.find (\<lambda>s. us_session_token s = t) xs = Some sess \<Longrightarrow> us_user_id sess = u
   \<Longrightarrow> List.find (owned_by t u) xs = Some sess"
  by (induction xs) (auto simp: owned_by_def split: if_splits)

section \<open>Ownership of sessions at the HTTP interface\<close>

text \<open>
  C10. When no session has both the token and the caller as its owner (a session with
  that token may exist for another user), querying and cancelling both answer 404 and
  return the store as it was, so the other user's session is untouched.
\<close>

theorem ownership_scoping:
  assumes "\<forall>s \<in> set (sessions d). us_session_token s = t \<longrightarrow> us_user_id s \<noteq> u"
  shows "get_upload_session t u now d = (Inl (HTTPException 404 ''Upload session not found''), d)
       \<and> cancel_upload_session t u d = (Inl (HTTPException 404 ''Upload session not found''), d)"
proof -
  from assms have "List.find (owned_by t u) (sessions d) = None"
    by (auto simp: find_None_iff owned_by_def)
  then show ?thesis
    by (simp add: get_upload_session_def cancel_upload_session_def)
qed

text \<open>The session of user 2 is asked for, and cancelled, by user 1.\<close>

theorem ownership_scoping_witness:
  "get_upload_session ''tok'' 1 50 (example_store [example_session ''tok'' 2 ''active'' 2 100])
       = (Inl (HTTPException 404 ''Upload session not found''),
          example_store [example_session ''tok'' 2 ''active'' 2 100])
   \<and> cancel_upload_session ''tok'' 1 (example_store [example_session ''tok'' 2 ''active'' 2 100])
       = (Inl (HTTPException 404 ''Upload session not found''),
          example_store [example_session ''tok'' 2 ''active'' 2 100])"
proof -
  have h: "\<forall>s \<in> set (sessions (example_store [example_session ''tok'' 2 ''active'' 2 100])).
      us_session_token s = ''tok'' \<longrightarrow> us_user_id s \<noteq> 1"
    by (simp add: example_store_def example_session_def)
  from ownership_scoping [OF h] show ?thesis by blast
qed

section \<open>Expiry\<close>

text \<open>
  C6, as the code has it. When the session found for the token is past its expiry, opening
  the upload connection is answered with the error \<open>Session expired\<close> and no frame is
  handled, and the owner's query over HTTP is answered with 400; both return the store as
  it was, so the stored status is not changed (no statement of the code writes a status
  \<open>expired\<close>).
\<close>

theorem expired_rejected_store_unchanged:
  assumes "List.find (\<lambda>s. us_session_token s = t) (sessions d) = Some sess"
      and "us_expires_at sess < now"
  shows "websocket_upload_endpoint env t now frames d = ([ErrorReply ''Session expired''], d)
       \<and> get_upload_session t (us_user_id sess) now d
           = (Inl (HTTPException 400 ''Upload session expired''), d)"
proof -
  have "List.find (owned_by t (us_user_id sess)) (sessions d) = Some sess"
    using assms(1) by (rule find_owned_token) simp
  with assms show ?thesis
    by (simp add: websocket_upload_endpoint_def get_upload_session_def)
qed

theorem expired_rejected_witness:
  "websocket_upload_endpoint example_env ''tok'' 200 [ChunkFrame 0 [1], CancelFrame]
       (example_store [example_session ''tok'' 3 ''active'' 2 100])
     = ([ErrorReply ''Session expired''], example_store [example_session ''tok'' 3 ''active'' 2 100])
   \<and> get_upload_session ''tok'' 3 200 (example_store [example_session ''tok'' 3 ''active'' 2 100])
     = (Inl (HTTPException 400 ''Upload session expired''),
        example_store [example_session ''tok'' 3 ''active'' 2 100])"
  using expired_rejected_store_unchanged
    [of "''tok''" "example_store [example_session ''tok'' 3 ''active'' 2 100]"
        "example_session ''tok'' 3 ''active'' 2 100" 200 example_env
        "[ChunkFrame 0 [1], CancelFrame]"]
  by (simp add: example_defs)

text \<open>
  The claim as stated fails: an active session that expired at 100 is sent a chunk at 200;
  the attempt is refused, and the stored status is still \<open>active\<close>, not \<open>expired\<close>.
\<close>

theorem expired_status_counterexample:
  "websocket_upload_endpoint example_env ''tok'' 200 [ChunkFrame 0 [1]]
       (example_store [example_session ''tok'' 1 ''active'' 2 100])
     = ([ErrorReply ''Session expired''], example_store [example_session ''tok'' 1 ''active'' 2 100])
   \<and> map us_status (sessions (example_store [example_session ''tok'' 1 ''active'' 2 100]))
       = [''active'']
   \<and> map us_status (sessions (example_store [example_session ''tok'' 1 ''active'' 2 100]))
       \<noteq> [''expired'']"
  by (simp add: websocket_upload_endpoint_def example_defs)

section \<open>Cancelling over HTTP\<close>

text \<open>
  C8. The owner cancels a session whose upload has completed: the request succeeds and the
  stored status goes from \<open>completed\<close> to \<open>cancelled\<close>.
\<close>

theorem cancel_completed_session:
  "cancel_upload_session ''tok'' 1 (example_store [example_session ''tok'' 1 ''completed'' 2 100])
     = (Inr ''Upload session cancelled'',
        example_store [example_session ''tok'' 1 ''cancelled'' 2 100])"
  by (simp add: cancel_upload_session_def example_defs owned_by_def)

section \<open>Opening a session\<close>

lemma ceil_div:
  fixes a b :: int
  assumes "0 < b"
  shows "(a + b - 1) div b = \<lceil>real_of_int a / real_of_int b\<rceil>"
proof -
  define z where "z = (a + b - 1) div b"
  define r where "r = (a + b - 1) mod b"
  have eq: "a + b - 1 = z * b + r" by (simp add: z_def r_def)
  have r: "0 \<le> r" "r < b" using assms by (simp_all add: r_def)
  have lo: "(z - 1) * b < a"
  proof -
    have "(z - 1) * b = z * b - b" by (simp add: algebra_simps)
    with eq r show ?thesis by linarith
  qed
  have hi: "a \<le> z * b" using eq r by linarith
  have bpos: "0 < real_of_int b" using assms by simp
  have "real_of_int ((z - 1) * b) < real_of_int a" using lo by linarith
  then have lo': "real_of_int z - 1 < real_of_int a / real_of_int b"
    using bpos by (simp add: pos_less_divide_eq)
  have "real_of_int a \<le> real_of_int (z * b)" using hi by linarith
  then have hi': "real_of_int a / real_of_int b \<le> real_of_int z"
    using bpos by (simp add: pos_divide_le_eq)
  have "\<lceil>real_of_int a / real_of_int b\<rceil> = z"
    using lo' hi' by (intro ceiling_unique) simp_all
  then show ?thesis by (simp add: z_def)
qed

text \<open>
  C7, as the code has it. The sizes are not validated. For every chunk size other than 0,
  whatever the sizes' signs, a session is created and stored: its number of chunks is
  \<open>(file_size + chunk_size - 1) // chunk_size\<close>, which is the ceiling of the quotient
  when the chunk size is positive; it is active, has no chunk uploaded, and expires 24
  hours after its creation.
\<close>

theorem create_upload_session_unvalidated:
  assumes "sc_chunk_size sd \<noteq> 0"
  shows "\<exists>us. create_upload_session sd u tok i now d
                 = (Inr us, d\<lparr>sessions := sessions d @ [us]\<rparr>)
          \<and> us_total_chunks us = (sc_file_size sd + sc_chunk_size sd - 1) div sc_chunk_size sd
          \<and> (0 < sc_chunk_size sd \<longrightarrow>
                us_total_chunks us
                  = \<lceil>real_of_int (sc_file_size sd) / real_of_int (sc_chunk_size sd)\<rceil>)
          \<and> us_status us = ''active'' \<and> us_uploaded_chunks us = 0
          \<and> us_expires_at us = now + 24 * 3600 * 1000000
          \<and> us_user_id us = u \<and> us_session_token us = tok"
  using assms by (simp add: create_upload_session_def Let_def timedelta_hours_def ceil_div)

text \<open>A file of 10,000,000 bytes in chunks of 1,048,576 bytes has 10 chunks.\<close>

theorem create_upload_session_witness:
  "\<exists>us. create_upload_session (example_create 10000000 1048576) 1 ''tok'' 9 1000 (example_store [])
           = (Inr us, example_store [us])
        \<and> us_total_chunks us = 10 \<and> us_status us = ''active''
        \<and> us_expires_at us = 86400001000"
proof -
  have "sc_chunk_size (example_create 10000000 1048576) \<noteq> 0" by (simp add: example_defs)
  from create_upload_session_unvalidated [OF this, of 1 "''tok''" 9 1000 "example_store []"]
  obtain us where
    "create_upload_session (example_create 10000000 1048576) 1 ''tok'' 9 1000 (example_store [])
       = (Inr us, (example_store [])\<lparr>sessions := sessions (example_store []) @ [us]\<rparr>)"
    "us_total_chunks us = (sc_file_size (example_create 10000000 1048576)
        + sc_chunk_size (example_create 10000000 1048576) - 1)
        div sc_chunk_size (example_create 10000000 1048576)"
    "us_status us = ''active''" "us_expires_at us = 1000 + 24 * 3600 * 1000000"
    by blast
  then show ?thesis by (intro exI [of _ us]) (simp add: example_defs)
qed

text \<open>
  The claim as stated fails: a total size of 0 is not refused. A session with no chunk is
  created and stored.
\<close>

theorem create_zero_size_counterexample:
  "create_upload_session (example_create 0 1048576) 1 ''tok'' 9 1000 (example_store [])
     = (Inr \<lparr> us_id = 9, us_user_id = 1, us_filename = ''a.mp4'', us_file_size = 0,
              us_chunk_size = 1048576, us_total_chunks = 0, us_uploaded_chunks = 0,
              us_status = ''active'', us_session_token = ''tok'',
              us_expires_at = 1000 + 86400000000 \<rparr>,
        example_store [\<lparr> us_id = 9, us_user_id = 1, us_filename = ''a.mp4'', us_file_size = 0,
              us_chunk_size = 1048576, us_total_chunks = 0, us_uploaded_chunks = 0,
              us_status = ''active'', us_session_token = ''tok'',
              us_expires_at = 1000 + 86400000000 \<rparr>])"
  by (simp add: create_upload_session_def example_defs timedelta_hours_def Let_def)

section \<open>Submitting a job\<close>

text \<open>
  C4, as the code has it. For a video that the caller owns and whose upload is completed:
  when a job of the same video and type is pending or running, the submission is refused
  with status 400 and the store is unchanged; otherwise a pending job is created, stored
  and queued.
\<close>

theorem create_analysis_in_flight:
  assumes "List.find (\<lambda>v. v_id v = vid \<and> v_user_id v = u) (videos d) = Some v"
      and "v_upload_status v = ''completed''"
  shows "create_analysis vid ty u n d =
          (if \<exists>a \<in> set (analyses d). in_flight vid ty a
           then (Inl (HTTPException 400 (already_detail ty)), d)
           else (Inr \<lparr> va_id = n, va_video_id = vid, va_analysis_type = ty,
                       va_status = ''pending'', va_result = None, va_error_message = None,
                       va_worker_id = None \<rparr>,
                 d\<lparr>analyses := analyses d @
                     [\<lparr> va_id = n, va_video_id = vid, va_analysis_type = ty,
                        va_status = ''pending'', va_result = None, va_error_message = None,
                        va_worker_id = None \<rparr>],
                   tasks := tasks d @ [n]\<rparr>))"
proof (cases "List.find (in_flight vid ty) (analyses d)")
  case None
  then have "\<not> (\<exists>a \<in> set (analyses d). in_flight vid ty a)" by (simp add: find_None_iff)
  with None assms show ?thesis by (simp add: create_analysis_def Let_def)
next
  case (Some a)
  then have "\<exists>a \<in> set (analyses d). in_flight vid ty a"
    by (metis find_Some_iff nth_mem)
  with Some assms show ?thesis by (simp add: create_analysis_def)
qed

text \<open>Refused while the earlier job is running; accepted once it is completed.\<close>

theorem create_analysis_witness:
  "create_analysis 1 ''scene_detection'' 1 6 (example_jobs [example_analysis ''running''])
     = (Inl (HTTPException 400 (already_detail ''scene_detection'')),
        example_jobs [example_analysis ''running''])
   \<and> fst (create_analysis 1 ''scene_detection'' 1 6 (example_jobs [example_analysis ''completed'']))
     = Inr \<lparr> va_id = 6, va_video_id = 1, va_analysis_type = ''scene_detection'',
              va_status = ''pending'', va_result = None, va_error_message = None,
              va_worker_id = None \<rparr>"
  using create_analysis_in_flight
      [of 1 1 "example_jobs [example_analysis ''running'']" example_video "''scene_detection''" 6]
    create_analysis_in_flight
      [of 1 1 "example_jobs [example_analysis ''completed'']" example_video "''scene_detection''" 6]
  by (simp add: example_defs in_flight_def)

text \<open>The claim as stated fails: the refusal carries status 400, not 409.\<close>

theorem conflict_status_counterexample:
  "create_analysis 1 ''scene_detection'' 1 6 (example_jobs [example_analysis ''pending''])
     = (Inl (HTTPException 400 (already_detail ''scene_detection'')),
        example_jobs [example_analysis ''pending''])
   \<and> HTTPException 400 (already_detail ''scene_detection'')
       \<noteq> HTTPException 409 (already_detail ''scene_detection'')"
  by (simp add: create_analysis_def in_flight_def example_defs)

section \<open>Executing a job\<close>

text \<open>
  C3, as the code has it. The transition to running is a plain write: an attempt that
  finds the job and its video writes the status \<open>running\<close> and its own task as the
  worker, whatever status and worker the job had, and then calls the analyzer exactly
  once.
\<close>

theorem begin_analysis_unconditional:
  assumes "List.find (\<lambda>(a, v). va_id a = aid) (joined d) = Some (a, v)"
  shows "map_option (\<lambda>(a', v', d'). (a', v', analyses d')) (begin_analysis t aid d)
           = Some (a\<lparr>va_status := ''running'', va_worker_id := Some t\<rparr>, v,
                   update_first (\<lambda>r. va_id r = aid)
                     (\<lambda>r. r\<lparr>va_status := ''running'', va_worker_id := Some t\<rparr>) (analyses d))
       \<and> analyzer_calls (snd (analyze_video_async run t aid d))
           = analyzer_calls d @ [(v_file_path v, va_analysis_type a)]"
  using assms
  by (simp add: begin_analysis_def analyze_video_async_def finish_analysis_def Let_def
        update_analysis_def split: analyzer_outcome.splits)

text \<open>A job that is already running is taken over by the task \<open>w2\<close>.\<close>

theorem begin_analysis_witness:
  "map_option (\<lambda>(a', v', d'). (a', v', analyses d'))
       (begin_analysis ''w2'' 5 (example_jobs [example_analysis ''running'']))
     = Some ((example_analysis ''running'')\<lparr>va_worker_id := Some ''w2''\<rparr>, example_video,
             [(example_analysis ''running'')\<lparr>va_worker_id := Some ''w2''\<rparr>])
   \<and> analyzer_calls (snd (analyze_video_async example_analyzer ''w2'' 5
         (example_jobs [example_analysis ''running''])))
     = [(''/app/storage/1/x.mp4'', ''scene_detection'')]"
proof -
  have h: "List.find (\<lambda>(a, v). va_id a = 5) (joined (example_jobs [example_analysis ''running'']))
             = Some (example_analysis ''running'', example_video)"
    by (simp add: joined_def example_defs)
  from begin_analysis_unconditional [OF h, of "''w2''" example_analyzer]
  show ?thesis by (simp add: example_defs)
qed

text \<open>
  The claim as stated fails: two workers begin the same pending job one after the other,
  before either has finished. Both are in its running phase, and the analyzer is called
  twice for it.
\<close>

theorem running_owner_counterexample:
  "owns_running (run_workers example_analyzer [Begin ''w1'' 5, Begin ''w2'' 5] example_pool) ''w1'' 5
   \<and> owns_running (run_workers example_analyzer [Begin ''w1'' 5, Begin ''w2'' 5] example_pool) ''w2'' 5
   \<and> analyzer_calls (wp_db (run_workers example_analyzer
         [Begin ''w1'' 5, Begin ''w2'' 5, Finish ''w1'', Finish ''w2''] example_pool))
       = [(''/app/storage/1/x.mp4'', ''scene_detection''),
          (''/app/storage/1/x.mp4'', ''scene_detection'')]"
  by (simp add: owns_running_def begin_analysis_def finish_analysis_def joined_def
        update_analysis_def user_channel_def example_defs Let_def)

section \<open>The chunk loop\<close>

lemma store_chunk_fields:
  "received_chunks (store_chunk i b c) = insert i (received_chunks c)"
  "chunk_data (store_chunk i b c) = (chunk_data c)(i \<mapsto> b)"
  "us_total_chunks (upload_session (store_chunk i b c)) = us_total_chunks (upload_session c)"
  "us_uploaded_chunks (upload_session (store_chunk i b c)) = int (card (insert i (received_chunks c)))"
  "us_status (upload_session (store_chunk i b c)) = us_status (upload_session c)"
  "us_session_token (upload_session (store_chunk i b c)) = us_session_token (upload_session c)"
  "files (db (store_chunk i b c)) = files (db c)"
  "videos (db (store_chunk i b c)) = videos (db c)"
  by (simp_all add: store_chunk_def db_commit_def Let_def)

lemma handle_chunk_cases:
  "handle_chunk env i b c =
     (if us_total_chunks (upload_session c) = 0
      then ([ErrorReply ''division by zero''], Break (store_chunk i b c))
      else if int (card (insert i (received_chunks c))) = us_total_chunks (upload_session c)
      then ([Progress i (int (card (insert i (received_chunks c)))) (us_total_chunks (upload_session c)),
             UploadComplete (env_video_id env) (env_unique_filename env)],
            Break (complete_upload env (store_chunk i b c)))
      else ([Progress i (int (card (insert i (received_chunks c)))) (us_total_chunks (upload_session c))],
            Continue (store_chunk i b c)))"
  by (simp add: handle_chunk_def Let_def store_chunk_fields)

lemma complete_upload_fields:
  "files (db (complete_upload env c)) (env_file_path env)
     = Some (assemble (chunk_data c) (us_total_chunks (upload_session c)))"
  "us_status (upload_session (complete_upload env c)) = ''completed''"
  "received_chunks (complete_upload env c) = received_chunks c"
  "chunk_data (complete_upload env c) = chunk_data c"
  by (simp_all add: complete_upload_def db_commit_def Let_def)

lemma complete_upload_file_at:
  "p = env_file_path env \<Longrightarrow>
   files (db (complete_upload env c)) p
     = Some (assemble (chunk_data c) (us_total_chunks (upload_session c)))"
  by (simp add: complete_upload_fields)

lemma upload_loop_append:
  "upload_loop env (xs @ ys) c =
     (case upload_loop env xs c of
        (rs, Break c') \<Rightarrow> (rs, Break c')
      | (rs, Continue c') \<Rightarrow> (case upload_loop env ys c' of (rs', out) \<Rightarrow> (rs @ rs', out)))"
proof (induction xs arbitrary: c)
  case Nil
  show ?case by simp
next
  case (Cons f fs)
  show ?case
    by (simp add: Cons.IH split: prod.splits outcome.splits)
qed

text \<open>Chunks with fresh indices that do not yet reach the total keep the loop running.\<close>

lemma upload_loop_fresh:
  assumes "finite (received_chunks c)" and "distinct js"
      and "set js \<inter> received_chunks c = {}"
      and "int (card (received_chunks c)) + int (length js) < us_total_chunks (upload_session c)"
  shows "\<exists>rs c'. upload_loop env (map (\<lambda>i. ChunkFrame i (content i)) js) c = (rs, Continue c')
           \<and> received_chunks c' = received_chunks c \<union> set js
           \<and> chunk_data c' = (\<lambda>i. if i \<in> set js then Some (content i) else chunk_data c i)
           \<and> us_total_chunks (upload_session c') = us_total_chunks (upload_session c)"
  using assms
proof (induction js arbitrary: c)
  case Nil
  then show ?case by simp
next
  case (Cons j js)
  let ?c1 = "store_chunk j (content j) c"
  have fresh: "j \<notin> received_chunks c" using Cons.prems(3) by auto
  then have card1: "card (insert j (received_chunks c)) = Suc (card (received_chunks c))"
    using Cons.prems(1) by simp
  have step: "handle_chunk env j (content j) c
      = ([Progress j (int (card (insert j (received_chunks c)))) (us_total_chunks (upload_session c))],
         Continue ?c1)"
    using Cons.prems(4) card1 by (simp add: handle_chunk_cases)
  have "\<exists>rs c'. upload_loop env (map (\<lambda>i. ChunkFrame i (content i)) js) ?c1 = (rs, Continue c')
           \<and> received_chunks c' = received_chunks ?c1 \<union> set js
           \<and> chunk_data c' = (\<lambda>i. if i \<in> set js then Some (content i) else chunk_data ?c1 i)
           \<and> us_total_chunks (upload_session c') = us_total_chunks (upload_session ?c1)"
  proof (rule Cons.IH)
    show "finite (received_chunks ?c1)" using Cons.prems(1) by (simp add: store_chunk_fields)
    show "distinct js" using Cons.prems(2) by simp
    show "set js \<inter> received_chunks ?c1 = {}"
      using Cons.prems(2,3) by (auto simp: store_chunk_fields)
    show "int (card (received_chunks ?c1)) + int (length js) < us_total_chunks (upload_session ?c1)"
      using Cons.prems(4) card1 by (simp add: store_chunk_fields)
  qed
  then obtain rs c' where
    loop: "upload_loop env (map (\<lambda>i. ChunkFrame i (content i)) js) ?c1 = (rs, Continue c')"
    and rc: "received_chunks c' = received_chunks ?c1 \<union> set js"
    and cd: "chunk_data c' = (\<lambda>i. if i \<in> set js then Some (content i) else chunk_data ?c1 i)"
    and tc: "us_total_chunks (upload_session c') = us_total_chunks (upload_session ?c1)"
    by blast
  have "upload_loop env (map (\<lambda>i. ChunkFrame i (content i)) (j # js)) c
          = (Progress j (int (card (insert j (received_chunks c)))) (us_total_chunks (upload_session c)) # rs,
             Continue c')"
    using step loop by simp
  moreover have "received_chunks c' = received_chunks c \<union> set (j # js)"
    using rc by (simp add: store_chunk_fields)
  moreover have "chunk_data c' = (\<lambda>i. if i \<in> set (j # js) then Some (content i) else chunk_data c i)"
    using cd Cons.prems(2) by (auto simp: store_chunk_fields fun_eq_iff)
  moreover have "us_total_chunks (upload_session c') = us_total_chunks (upload_session c)"
    using tc by (simp add: store_chunk_fields)
  ultimately show ?case by blast
qed


lemma open_conn_fields:
  "received_chunks (open_conn sess d) = {}"
  "chunk_data (open_conn sess d) = Map.empty"
  "upload_session (open_conn sess d) = sess"
  "db (open_conn sess d) = d"
  by (simp_all add: open_conn_def)

lemma map_int_upt: "map int [0..<m] = [0..int m - 1]"
proof (induction m)
  case 0
  show ?case by simp
next
  case (Suc m)
  have "[0..int (Suc m) - 1] = [0..int m - 1] @ [int m]"
    using upto_rec2 [of 0 "int m"] by simp
  with Suc show ?case by simp
qed

lemma range_py_upto: "range_py n = [0..n - 1]"
proof (cases "0 \<le> n")
  case True
  then show ?thesis using map_int_upt [of "nat n"] by (simp add: range_py_def)
next
  case False
  then show ?thesis by (simp add: range_py_def)
qed

lemma assemble_all_present:
  assumes "\<And>i. 0 \<le> i \<Longrightarrow> i < n \<Longrightarrow> cd i = Some (content i)"
  shows "assemble cd n = concat (map content [0..n - 1])"
proof -
  have "map (\<lambda>i. case cd i of Some b \<Rightarrow> b | None \<Rightarrow> []) [0..n - 1] = map content [0..n - 1]"
    by (rule map_cong) (auto simp: assms)
  then show ?thesis unfolding assemble_def range_py_upto by (rule arg_cong)
qed

section \<open>Assembly in index order\<close>

text \<open>
  C1. The chunks of a session arrive in any order \<open>js\<close>: every index from 0 up to the
  total exactly once. Then the loop ends with the last of them, the session is completed,
  and the file written is the concatenation of the chunks' bytes in ascending index order,
  which does not depend on \<open>js\<close>.
\<close>

theorem assembled_in_index_order:
  assumes "distinct js" and "set js = {0..<us_total_chunks sess}" and "js \<noteq> []"
  shows "\<exists>rs c. upload_loop env (map (\<lambda>i. ChunkFrame i (content i)) js) (open_conn sess d)
                  = (rs, Break c)
          \<and> files (db c) (env_file_path env)
              = Some (concat (map content [0..us_total_chunks sess - 1]))
          \<and> us_status (upload_session c) = ''completed''"
proof -
  let ?n = "us_total_chunks sess"
  let ?c0 = "open_conn sess d"
  let ?pre = "butlast js" and ?l = "last js"
  have js: "js = ?pre @ [?l]" using assms(3) by simp
  have len: "int (length js) = int (card {0..<?n})"
    using assms(1,2) distinct_card [of js] by simp
  have npos: "0 < ?n" using assms(2,3) by (cases "0 < ?n") auto
  have len': "int (length js) = ?n" using len npos by simp
  have dpre: "distinct ?pre" using assms(1) by (rule distinct_butlast)
  have "length js \<noteq> 0" using assms(3) by simp
  then have "length ?pre < length js" unfolding length_butlast by arith
  then have lpre: "int (length ?pre) < ?n" using len' by linarith
  have f1: "finite (received_chunks ?c0)" by (simp add: open_conn_fields)
  have f3: "set ?pre \<inter> received_chunks ?c0 = {}" by (simp add: open_conn_fields)
  have f4: "int (card (received_chunks ?c0)) + int (length ?pre)
              < us_total_chunks (upload_session ?c0)"
    using lpre by (simp add: open_conn_fields)
  from upload_loop_fresh [OF f1 dpre f3 f4, of env content]
  obtain rs c' where
    loop: "upload_loop env (map (\<lambda>i. ChunkFrame i (content i)) ?pre) ?c0 = (rs, Continue c')"
    and rc: "received_chunks c' = set ?pre"
    and cd: "chunk_data c' = (\<lambda>i. if i \<in> set ?pre then Some (content i) else None)"
    and tc: "us_total_chunks (upload_session c') = ?n"
    unfolding open_conn_fields by auto
  have glue: "?pre @ [?l] = js" using assms(3) by (rule append_butlast_last_id)
  have "set (?pre @ [?l]) = insert ?l (set ?pre)" by simp
  then have all: "insert ?l (set ?pre) = set js" by (simp only: glue)
  have card_all: "int (card (insert ?l (received_chunks c'))) = ?n"
    using rc all assms(1) len' distinct_card [of js] by simp
  let ?c2 = "store_chunk ?l (content ?l) c'"
  have step: "handle_chunk env ?l (content ?l) c'
      = ([Progress ?l ?n ?n, UploadComplete (env_video_id env) (env_unique_filename env)],
         Break (complete_upload env ?c2))"
    using card_all tc npos by (simp add: handle_chunk_cases)
  have run: "upload_loop env (map (\<lambda>i. ChunkFrame i (content i)) js) ?c0
      = (rs @ [Progress ?l ?n ?n, UploadComplete (env_video_id env) (env_unique_filename env)],
         Break (complete_upload env ?c2))"
  proof -
    have "map (\<lambda>i. ChunkFrame i (content i)) (?pre @ [?l])
            = map (\<lambda>i. ChunkFrame i (content i)) ?pre @ [ChunkFrame ?l (content ?l)]"
      by simp
    then have "map (\<lambda>i. ChunkFrame i (content i)) js
            = map (\<lambda>i. ChunkFrame i (content i)) ?pre @ [ChunkFrame ?l (content ?l)]"
      by (simp only: glue)
    then show ?thesis using loop step by (simp add: upload_loop_append)
  qed
  have present: "chunk_data ?c2 i = Some (content i)" if "0 \<le> i" "i < ?n" for i
  proof -
    have "i \<in> set js" using that assms(2) by simp
    then have "i = ?l \<or> i \<in> set ?pre" using all by auto
    then show ?thesis by (auto simp: store_chunk_fields cd)
  qed
  have "files (db (complete_upload env ?c2)) (env_file_path env)
          = Some (assemble (chunk_data ?c2) ?n)"
    by (simp add: complete_upload_fields store_chunk_fields tc)
  also have "assemble (chunk_data ?c2) ?n = concat (map content [0..?n - 1])"
    by (rule assemble_all_present) (rule present)
  finally have written: "files (db (complete_upload env ?c2)) (env_file_path env)
          = Some (concat (map content [0..?n - 1]))" .
  have st: "us_status (upload_session (complete_upload env ?c2)) = ''completed''"
    by (simp add: complete_upload_fields)
  show ?thesis
    apply (intro exI conjI)
      apply (rule run)
     apply (rule written)
    apply (rule st)
    done
qed

text \<open>Ten chunks sent in reverse order, 9 down to 0.\<close>

theorem assembled_in_index_order_witness:
  "\<exists>rs c. upload_loop example_env
             (map (\<lambda>i. ChunkFrame i [word_of_int i]) [9, 8, 7, 6, 5, 4, 3, 2, 1, 0])
             (open_conn (example_session ''tok'' 1 ''active'' 10 100)
                (example_store [example_session ''tok'' 1 ''active'' 10 100]))
           = (rs, Break c)
        \<and> files (db c) ''/app/storage/1/x.mp4'' = Some [0, 1, 2, 3, 4, 5, 6, 7, 8, 9]
        \<and> us_status (upload_session c) = ''completed''"
proof -
  have d: "distinct [9, 8, 7, 6, 5, 4, 3, 2, 1, 0 :: int]" by simp
  have s: "set [9, 8, 7, 6, 5, 4, 3, 2, 1, 0 :: int]
             = {0..<us_total_chunks (example_session ''tok'' 1 ''active'' 10 100)}"
    by (auto simp: example_session_def) presburger
  have n: "[9, 8, 7, 6, 5, 4, 3, 2, 1, 0 :: int] \<noteq> []" by simp
  from assembled_in_index_order [OF d s n, of example_env "\<lambda>i. [word_of_int i]"
      "example_store [example_session ''tok'' 1 ''active'' 10 100]"]
  obtain rs c where
    loop: "upload_loop example_env
             (map (\<lambda>i. ChunkFrame i [word_of_int i]) [9, 8, 7, 6, 5, 4, 3, 2, 1, 0])
             (open_conn (example_session ''tok'' 1 ''active'' 10 100)
                (example_store [example_session ''tok'' 1 ''active'' 10 100]))
           = (rs, Break c)"
    and f: "files (db c) (env_file_path example_env)
              = Some (concat (map (\<lambda>i. [word_of_int i])
                  [0..us_total_chunks (example_session ''tok'' 1 ''active'' 10 100) - 1]))"
    and st: "us_status (upload_session c) = ''completed''"
    by blast
  have p: "env_file_path example_env = ''/app/storage/1/x.mp4''"
    by (simp add: example_env_def)
  have v: "concat (map (\<lambda>i. [word_of_int i])
              [0..us_total_chunks (example_session ''tok'' 1 ''active'' 10 100) - 1])
             = [0, 1, 2, 3, 4, 5, 6, 7, 8, 9 :: 8 word]"
    by (simp add: example_session_def upto_rec1)
  from f have f': "files (db c) ''/app/storage/1/x.mp4'' = Some [0, 1, 2, 3, 4, 5, 6, 7, 8, 9]"
    unfolding p v .
  show ?thesis
    apply (intro exI conjI)
      apply (rule loop)
     apply (rule f')
    apply (rule st)
    done
qed

section \<open>Chunks sent again\<close>

lemma update_first_const_idem:
  "P s \<Longrightarrow> update_first P (\<lambda>_. s) (update_first P (\<lambda>_. s) xs) = update_first P (\<lambda>_. s) xs"
  by (induction xs) auto

lemma db_commit_idem: "db_commit (db_commit c) = db_commit c"
  by (simp add: db_commit_def update_first_const_idem)

lemma store_chunk_committed: "db_commit (store_chunk i b c) = store_chunk i b c"
  by (simp add: store_chunk_def Let_def db_commit_idem)

lemma conn_inv_open: "conn_inv (open_conn sess d)"
  by (simp add: conn_inv_def open_conn_fields)

lemma conn_inv_frame:
  assumes "conn_inv c" and "handle_frame env f c = (rs, Continue c')"
  shows "conn_inv c'"
proof (cases f)
  case (ChunkFrame i b)
  with assms(2) have c': "c' = store_chunk i b c"
    and tc: "us_total_chunks (upload_session c) \<noteq> 0"
    and nf: "int (card (insert i (received_chunks c))) \<noteq> us_total_chunks (upload_session c)"
    by (auto simp: handle_chunk_cases split: if_splits)
  from assms(1) have "finite (received_chunks c)" by (simp add: conn_inv_def)
  with tc nf show ?thesis
    unfolding c' conn_inv_def by (simp add: store_chunk_fields store_chunk_committed)
next
  case CancelFrame
  with assms(2) show ?thesis by (simp add: handle_cancel_def)
next
  case OtherFrame
  with assms show ?thesis by simp
next
  case (BadFrame e)
  with assms(2) show ?thesis by simp
next
  case Disconnect
  with assms(2) show ?thesis by simp
qed

lemma conn_inv_loop:
  "conn_inv c \<Longrightarrow> upload_loop env fs c = (rs, Continue c') \<Longrightarrow> conn_inv c'"
proof (induction fs arbitrary: c rs)
  case Nil
  then show ?case by simp
next
  case (Cons f fs)
  from Cons.prems(2) obtain r1 c1 r2 where
    h: "handle_frame env f c = (r1, Continue c1)" and l: "upload_loop env fs c1 = (r2, Continue c')"
    by (auto split: prod.splits outcome.splits)
  from conn_inv_frame [OF Cons.prems(1) h] have "conn_inv c1" .
  from Cons.IH [OF this l] show ?case .
qed

lemma store_chunk_same:
  assumes "conn_inv c" and "i \<in> received_chunks c" and "chunk_data c i = Some b"
  shows "store_chunk i b c = c"
proof -
  from assms(1,2) have up: "us_uploaded_chunks (upload_session c) = int (card (received_chunks c))"
    and com: "db_commit c = c"
    by (auto simp: conn_inv_def)
  have ins: "insert i (received_chunks c) = received_chunks c" using assms(2) by auto
  have upd: "(chunk_data c)(i \<mapsto> b) = chunk_data c" using assms(3) by (rule map_upd_triv)
  have "store_chunk i b c = db_commit (c\<lparr>upload_session :=
           (upload_session c)\<lparr>us_uploaded_chunks := us_uploaded_chunks (upload_session c)\<rparr>\<rparr>)"
    by (simp add: store_chunk_def Let_def ins upd up)
  also have "\<dots> = db_commit c" by simp
  finally show ?thesis using com by simp
qed

text \<open>
  C2. A connection has handled the frames \<open>pre\<close> and waits; the index \<open>i\<close> is among
  those received. A chunk for \<open>i\<close> is answered with a progress reply that carries the
  same count, leaves the set of indices and the stored count as they were, and puts the
  new bytes in the buffer under \<open>i\<close>. When the bytes sent again are the bytes buffered,
  the connection is exactly as before, and whatever frames follow, the final state (the
  file written included) is the one reached without the duplicate.
\<close>

theorem duplicate_chunk_idempotent:
  assumes "upload_loop env pre (open_conn sess d) = (rs, Continue c)"
      and "i \<in> received_chunks c"
  shows "handle_frame env (ChunkFrame i b) c
           = ([Progress i (int (card (received_chunks c))) (us_total_chunks (upload_session c))],
              Continue (store_chunk i b c))
       \<and> received_chunks (store_chunk i b c) = received_chunks c
       \<and> us_uploaded_chunks (upload_session (store_chunk i b c))
           = us_uploaded_chunks (upload_session c)
       \<and> chunk_data (store_chunk i b c) i = Some b
       \<and> (chunk_data c i = Some b \<longrightarrow>
            store_chunk i b c = c
            \<and> snd (upload_loop env (pre @ ChunkFrame i b # rest) (open_conn sess d))
                = snd (upload_loop env (pre @ rest) (open_conn sess d)))"
proof -
  have inv: "conn_inv c" using conn_inv_open assms(1) by (rule conn_inv_loop)
  have ins: "insert i (received_chunks c) = received_chunks c" using assms(2) by auto
  from inv assms(2) have up: "us_uploaded_chunks (upload_session c) = int (card (received_chunks c))"
    and nf: "int (card (received_chunks c)) \<noteq> us_total_chunks (upload_session c)"
    and tc: "us_total_chunks (upload_session c) \<noteq> 0"
    by (auto simp: conn_inv_def)
  have step: "handle_frame env (ChunkFrame i b) c
           = ([Progress i (int (card (received_chunks c))) (us_total_chunks (upload_session c))],
              Continue (store_chunk i b c))"
    using nf tc by (simp add: handle_chunk_cases ins)
  have same: "snd (upload_loop env (pre @ ChunkFrame i b # rest) (open_conn sess d))
                = snd (upload_loop env (pre @ rest) (open_conn sess d))"
    if eq: "store_chunk i b c = c"
    using assms(1) step by (simp add: upload_loop_append eq split: prod.splits)
  show ?thesis
    using step same store_chunk_same [OF inv assms(2)]
    by (simp add: store_chunk_fields ins up)
qed

text \<open>Chunk 0 is sent twice before chunk 1 completes the upload.\<close>

theorem duplicate_chunk_witness:
  "snd (upload_loop example_env ([ChunkFrame 0 [1]] @ ChunkFrame 0 [1] # [ChunkFrame 1 [2]])
          (open_conn (example_session ''tok'' 1 ''active'' 2 100)
             (example_store [example_session ''tok'' 1 ''active'' 2 100])))
     = snd (upload_loop example_env ([ChunkFrame 0 [1]] @ [ChunkFrame 1 [2]])
          (open_conn (example_session ''tok'' 1 ''active'' 2 100)
             (example_store [example_session ''tok'' 1 ''active'' 2 100])))
   \<and> received_chunks (store_chunk 0 [1] (store_chunk 0 [1]
          (open_conn (example_session ''tok'' 1 ''active'' 2 100)
             (example_store [example_session ''tok'' 1 ''active'' 2 100])))) = {0}"
proof -
  let ?c0 = "open_conn (example_session ''tok'' 1 ''active'' 2 100)
               (example_store [example_session ''tok'' 1 ''active'' 2 100])"
  have h1: "upload_loop example_env [ChunkFrame 0 [1]] ?c0
              = ([Progress 0 1 2], Continue (store_chunk 0 [1] ?c0))"
    by (simp add: handle_chunk_cases open_conn_fields example_session_def)
  have h2: "0 \<in> received_chunks (store_chunk 0 [1] ?c0)" by (simp add: store_chunk_fields)
  have h3: "chunk_data (store_chunk 0 [1] ?c0) 0 = Some [1]" by (simp add: store_chunk_fields)
  from duplicate_chunk_idempotent [OF h1 h2, of "[1]" "[ChunkFrame 1 [2]]"] h3
  show ?thesis by (simp add: store_chunk_fields open_conn_fields)
qed

section \<open>Replies to a chunk\<close>

text \<open>
  C9, as the code has it. For a session whose total is not 0, every chunk is answered with
  a progress reply; the chunk that makes the number of indices equal to the total is
  answered with that progress reply followed by \<open>upload_complete\<close>, which carries the
  key of the video and the name of the stored file.
\<close>

theorem final_chunk_replies:
  assumes "us_total_chunks (upload_session c) \<noteq> 0"
  shows "fst (handle_frame env (ChunkFrame i b) c) =
           (if int (card (insert i (received_chunks c))) = us_total_chunks (upload_session c)
            then [Progress i (us_total_chunks (upload_session c)) (us_total_chunks (upload_session c)),
                  UploadComplete (env_video_id env) (env_unique_filename env)]
            else [Progress i (int (card (insert i (received_chunks c))))
                    (us_total_chunks (upload_session c))])"
  using assms by (simp add: handle_chunk_cases)

theorem final_chunk_replies_witness:
  "fst (handle_frame example_env (ChunkFrame 1 [2])
          (store_chunk 0 [1] (open_conn (example_session ''tok'' 1 ''active'' 2 100)
             (example_store [example_session ''tok'' 1 ''active'' 2 100]))))
     = [Progress 1 2 2, UploadComplete 7 ''x.mp4'']
   \<and> fst (handle_frame example_env (ChunkFrame 0 [1])
          (open_conn (example_session ''tok'' 1 ''active'' 2 100)
             (example_store [example_session ''tok'' 1 ''active'' 2 100])))
     = [Progress 0 1 2]"
  using final_chunk_replies [of "store_chunk 0 [1] (open_conn (example_session ''tok'' 1 ''active'' 2 100)
             (example_store [example_session ''tok'' 1 ''active'' 2 100]))" example_env 1 "[2]"]
    final_chunk_replies [of "open_conn (example_session ''tok'' 1 ''active'' 2 100)
             (example_store [example_session ''tok'' 1 ''active'' 2 100])" example_env 0 "[1]"]
  by (simp add: store_chunk_fields open_conn_fields example_session_def example_env_def)

text \<open>
  The claim as stated fails: the only chunk of a session is answered with two messages,
  and the first is a progress reply.
\<close>

theorem final_reply_counterexample:
  "fst (upload_loop example_env [ChunkFrame 0 [1]]
          (open_conn (example_session ''tok'' 1 ''active'' 1 100)
             (example_store [example_session ''tok'' 1 ''active'' 1 100])))
     = [Progress 0 1 1, UploadComplete 7 ''x.mp4'']"
  by (simp add: handle_chunk_cases open_conn_fields example_session_def example_env_def)

section \<open>Chunk indices\<close>

text \<open>
  C5, as the code has it. The handler does not compare the index with the total. A chunk
  with an index not yet received, in range or not, is buffered under its index, the index
  joins the set, the count goes up by one, and the first reply is a progress message and
  not an error (for a total other than 0).
\<close>

theorem chunk_index_unchecked:
  assumes "finite (received_chunks c)" and "i \<notin> received_chunks c"
      and "us_total_chunks (upload_session c) \<noteq> 0"
  shows "(\<exists>more. fst (handle_frame env (ChunkFrame i b) c)
            = Progress i (int (card (received_chunks c)) + 1) (us_total_chunks (upload_session c))
                # more)
       \<and> received_chunks (store_chunk i b c) = insert i (received_chunks c)
       \<and> chunk_data (store_chunk i b c) i = Some b
       \<and> us_uploaded_chunks (upload_session (store_chunk i b c))
           = int (card (received_chunks c)) + 1
       \<and> (snd (handle_frame env (ChunkFrame i b) c) = Continue (store_chunk i b c)
          \<or> snd (handle_frame env (ChunkFrame i b) c)
               = Break (complete_upload env (store_chunk i b c)))"
  using assms by (simp add: handle_chunk_cases store_chunk_fields)

text \<open>Index 7 in a session of 2 chunks.\<close>

theorem chunk_index_unchecked_witness:
  "(\<exists>more. fst (handle_frame example_env (ChunkFrame 7 [1])
          (open_conn (example_session ''tok'' 1 ''active'' 2 100)
             (example_store [example_session ''tok'' 1 ''active'' 2 100])))
       = Progress 7 1 2 # more)
   \<and> received_chunks (store_chunk 7 [1] (open_conn (example_session ''tok'' 1 ''active'' 2 100)
             (example_store [example_session ''tok'' 1 ''active'' 2 100]))) = {7}"
  using chunk_index_unchecked [of "open_conn (example_session ''tok'' 1 ''active'' 2 100)
             (example_store [example_session ''tok'' 1 ''active'' 2 100])" 7 example_env "[1]"]
  by (simp add: open_conn_fields example_session_def)

text \<open>
  The claim as stated fails: index 7 of a session of 2 chunks is buffered and counted, and
  the reply is a progress message. A second index out of range, 9, brings the count to the
  total: the upload completes and an empty file is written.
\<close>

theorem out_of_range_counterexample:
  "upload_loop example_env [ChunkFrame 7 [1]]
       (open_conn (example_session ''tok'' 1 ''active'' 2 100)
          (example_store [example_session ''tok'' 1 ''active'' 2 100]))
     = ([Progress 7 1 2],
        Continue (store_chunk 7 [1] (open_conn (example_session ''tok'' 1 ''active'' 2 100)
          (example_store [example_session ''tok'' 1 ''active'' 2 100]))))
   \<and> received_chunks (store_chunk 7 [1] (open_conn (example_session ''tok'' 1 ''active'' 2 100)
          (example_store [example_session ''tok'' 1 ''active'' 2 100]))) = {7}
   \<and> chunk_data (store_chunk 7 [1] (open_conn (example_session ''tok'' 1 ''active'' 2 100)
          (example_store [example_session ''tok'' 1 ''active'' 2 100]))) 7 = Some [1]
   \<and> us_uploaded_chunks (upload_session (store_chunk 7 [1]
        (open_conn (example_session ''tok'' 1 ''active'' 2 100)
          (example_store [example_session ''tok'' 1 ''active'' 2 100])))) = 1
   \<and> fst (upload_loop example_env [ChunkFrame 7 [1], ChunkFrame 9 [2]]
        (open_conn (example_session ''tok'' 1 ''active'' 2 100)
          (example_store [example_session ''tok'' 1 ''active'' 2 100])))
       = [Progress 7 1 2, Progress 9 2 2, UploadComplete 7 ''x.mp4'']
   \<and> files (db (the_conn (snd (upload_loop example_env [ChunkFrame 7 [1], ChunkFrame 9 [2]]
        (open_conn (example_session ''tok'' 1 ''active'' 2 100)
          (example_store [example_session ''tok'' 1 ''active'' 2 100]))))))
        ''/app/storage/1/x.mp4'' = Some []"
  by (simp add: handle_chunk_cases store_chunk_fields complete_upload_file_at open_conn_fields
        assemble_def range_py_def example_session_def example_env_def)

end
